theory Spec2Isabelle
  imports Complex_Main
begin

section \<open>Python values, errors and strings\<close>

text \<open>
  The exceptions the modelled code can raise. A function that can raise returns
  \<open>py_error + 'a\<close>, with \<open>Inl\<close> for the exception. \<open>RegexNotModelled\<close> is not a Python
  exception: it marks a query whose meaning as a regular expression lies outside the
  fragment of Python's \<open>re\<close> that is modelled below, so nothing is said about it.
\<close>

datatype py_error =
    AttributeError
  | KeyError
  | ValueError
  | FileNotFoundError
  | FileExistsError
  | LoadError
  | RegexNotModelled

text \<open>
  Strings are lists of 8-bit characters: the model covers ASCII text, where
  \<open>str.lower\<close> maps \<open>A..Z\<close> to \<open>a..z\<close> and leaves every other character alone.
\<close>

definition lower_char :: "char \<Rightarrow> char" where
  "lower_char c =
     (let n = (of_char c :: nat) in if 65 \<le> n \<and> n \<le> 90 then char_of (n + 32) else c)"

definition lower :: "string \<Rightarrow> string" where
  "lower s = map lower_char s"

text \<open>\<open>str.strip()\<close> removes the white space of Python at both ends.\<close>

definition is_space :: "char \<Rightarrow> bool" where
  "is_space c =
     (let n = (of_char c :: nat) in (9 \<le> n \<and> n \<le> 13) \<or> (28 \<le> n \<and> n \<le> 32))"

definition strip :: "string \<Rightarrow> string" where
  "strip s = rev (dropWhile is_space (rev (dropWhile is_space s)))"

text \<open>Python's \<open>sub in s\<close> on strings: \<open>sub\<close> occurs in \<open>s\<close> as a contiguous block.\<close>

fun startswith :: "string \<Rightarrow> string \<Rightarrow> bool" where
  "startswith s [] = True"
| "startswith [] (p # ps) = False"
| "startswith (c # s) (p # ps) = (c = p \<and> startswith s ps)"

fun str_in :: "string \<Rightarrow> string \<Rightarrow> bool" where
  "str_in sub [] = (sub = [])"
| "str_in sub (c # s) = (startswith (c # s) sub \<or> str_in sub s)"

section \<open>The fragment of Python's regular expressions\<close>

text \<open>
  \<open>Series.str.contains(pat, na=False)\<close> leaves \<open>regex=True\<close>, so pandas compiles the
  query with \<open>re\<close> and keeps the rows where \<open>re.search\<close> finds a match. The characters
  below are the special ones of \<open>re\<close>; a pattern without them matches itself, and
  \<open>.\<close> matches any character but a newline. Patterns using another special character
  are not modelled.
\<close>

definition re_special :: "char list" where
  "re_special =
     [CHR ''.'', CHR ''^'', CHR ''$'', CHR ''*'', CHR ''+'', CHR ''?'', CHR ''{'', CHR ''}'',
      CHR ''['', CHR '']'', CHR 0x5C, CHR ''|'', CHR ''('', CHR '')'']"

definition plain :: "string \<Rightarrow> bool" where
  "plain pat = list_all (\<lambda>c. c \<notin> set re_special) pat"

definition in_fragment :: "string \<Rightarrow> bool" where
  "in_fragment pat = list_all (\<lambda>c. c = CHR ''.'' \<or> c \<notin> set re_special) pat"

fun re_match_here :: "string \<Rightarrow> string \<Rightarrow> bool" where
  "re_match_here [] s = True"
| "re_match_here (p # ps) [] = False"
| "re_match_here (p # ps) (c # s) =
     ((if p = CHR ''.'' then c \<noteq> CHR 0x0A else c = p) \<and> re_match_here ps s)"

fun re_find :: "string \<Rightarrow> string \<Rightarrow> bool" where
  "re_find pat [] = re_match_here pat []"
| "re_find pat (c # s) = (re_match_here pat (c # s) \<or> re_find pat s)"

section \<open>The pesticide table\<close>

text \<open>
  A cell of the table is text or missing (\<open>NaN\<close>). A row gives the cell of each column
  name; only the names in \<open>columns\<close> are ever read. \<open>read_csv\<close> gives a column the object
  dtype when it has no rows or holds some text; a column with rows and no text at all
  (all missing, or all numbers) has a numeric dtype.
\<close>

datatype cell = Str string | NaN

record dataframe =
  columns :: "string list"
  rows :: "(string \<Rightarrow> cell) list"

type_synonym series = "cell list"

definition is_Str :: "cell \<Rightarrow> bool" where
  "is_Str c = (case c of Str s \<Rightarrow> True | NaN \<Rightarrow> False)"

definition column :: "dataframe \<Rightarrow> string \<Rightarrow> series" where
  "column db col = map (\<lambda>row. row col) (rows db)"

definition object_dtype :: "series \<Rightarrow> bool" where
  "object_dtype xs = (xs = [] \<or> list_ex is_Str xs)"

text \<open>
  \<open>.str.lower()\<close>: the \<open>.str\<close> accessor raises AttributeError on a column that is not
  of object dtype; missing cells stay missing.
\<close>

definition str_lower :: "series \<Rightarrow> py_error + series" where
  "str_lower xs =
     (if object_dtype xs
      then Inr (map (\<lambda>c. case c of Str s \<Rightarrow> Str (lower s) | NaN \<Rightarrow> NaN) xs)
      else Inl AttributeError)"

text \<open>
  \<open>.str.contains(pat, na=False)\<close>: the pattern is compiled once, whatever the rows are,
  and a missing cell gives False.
\<close>

definition str_contains :: "string \<Rightarrow> series \<Rightarrow> py_error + bool list" where
  "str_contains pat xs =
     (if \<not> object_dtype xs then Inl AttributeError
      else if \<not> in_fragment pat then Inl RegexNotModelled
      else Inr (map (\<lambda>c. case c of Str s \<Rightarrow> re_find pat s | NaN \<Rightarrow> False) xs))"

text \<open>\<open>str(pest)\<close> of a cell, and the elementwise \<open>==\<close> of pandas (NaN equals nothing).\<close>

definition py_str :: "cell \<Rightarrow> string" where
  "py_str c = (case c of Str s \<Rightarrow> s | NaN \<Rightarrow> ''nan'')"

definition cell_eq :: "cell \<Rightarrow> cell \<Rightarrow> bool" where
  "cell_eq a b = (case a of Str s \<Rightarrow> b = Str s | NaN \<Rightarrow> False)"

text \<open>\<open>Series.unique()\<close>: the distinct values in order of first appearance.\<close>

definition unique :: "'a list \<Rightarrow> 'a list" where
  "unique xs = fold (\<lambda>x seen. if x \<in> set seen then seen else seen @ [x]) xs []"

text \<open>
  \<open>pd.DataFrame(data)\<close> from a dict of equally long lists, as in
  \<open>create_default_database\<close>.
\<close>

definition DataFrame :: "(string \<times> cell list) list \<Rightarrow> dataframe" where
  "DataFrame data =
     \<lparr> columns = map fst data,
       rows = map (\<lambda>i col. case map_of data col of Some xs \<Rightarrow> xs ! i | None \<Rightarrow> NaN)
                [0 ..< (case data of [] \<Rightarrow> 0 | (k, xs) # _ \<Rightarrow> length xs)] \<rparr>"

definition default_data :: "(string \<times> cell list) list" where
  "default_data =
     [(''pest_name'', map Str
        [''aphid'', ''aphid'', ''aphid'',
         ''thrips'', ''thrips'', ''thrips'',
         ''whitefly'', ''whitefly'', ''whitefly'',
         ''caterpillar'', ''caterpillar'', ''caterpillar'',
         ''beetle'', ''beetle'', ''beetle'',
         ''mite'', ''mite'', ''mite'',
         ''leafhopper'', ''leafhopper'', ''leafhopper'',
         ''scale'', ''scale'', ''scale'',
         ''borer'', ''borer'', ''borer'',
         ''weevil'', ''weevil'', ''weevil'',
         ''armyworm'', ''armyworm'', ''bollworm'', ''bollworm'']),
      (''pesticide_name'', map Str
        [''Imidacloprid'', ''Thiamethoxam'', ''Acetamiprid'',
         ''Spinosad'', ''Abamectin'', ''Fipronil'',
         ''Spiromesifen'', ''Pyriproxyfen'', ''Buprofezin'',
         ''Bacillus thuringiensis'', ''Chlorantraniliprole'', ''Indoxacarb'',
         ''Carbaryl'', ''Permethrin'', ''Lambda-cyhalothrin'',
         ''Abamectin'', ''Hexythiazox'', ''Propargite'',
         ''Imidacloprid'', ''Deltamethrin'', ''Cypermethrin'',
         ''Spirotetramat'', ''Buprofezin'', ''Dinotefuran'',
         ''Chlorantraniliprole'', ''Fipronil'', ''Cartap hydrochloride'',
         ''Imidacloprid'', ''Chlorpyrifos'', ''Thiamethoxam'',
         ''Spinetoram'', ''Emamectin benzoate'', ''Flubendiamide'', ''Chlorantraniliprole'']),
      (''application_rate'', map Str
        [''0.5ml/L'', ''0.3g/L'', ''0.6ml/L'',
         ''0.45ml/L'', ''1.9ml/L'', ''2ml/L'',
         ''1.5ml/L'', ''1ml/L'', ''2ml/L'',
         ''2g/L'', ''0.6ml/L'', ''2ml/L'',
         ''2g/L'', ''2ml/L'', ''1ml/L'',
         ''1.9ml/L'', ''1.5ml/L'', ''2ml/L'',
         ''0.5ml/L'', ''1ml/L'', ''1ml/L'',
         ''1ml/L'', ''2ml/L'', ''0.6ml/L'',
         ''0.6ml/L'', ''2ml/L'', ''2g/L'',
         ''0.5ml/L'', ''2ml/L'', ''0.3g/L'',
         ''0.45ml/L'', ''0.5g/L'', ''2.5ml/L'', ''0.6ml/L'']),
      (''effectiveness'', map Str
        [''High'', ''High'', ''Medium'',
         ''High'', ''Medium'', ''High'',
         ''High'', ''Medium'', ''Medium'',
         ''High'', ''High'', ''High'',
         ''Medium'', ''High'', ''High'',
         ''High'', ''Medium'', ''Medium'',
         ''High'', ''High'', ''High'',
         ''Medium'', ''Medium'', ''High'',
         ''High'', ''High'', ''Medium'',
         ''High'', ''Medium'', ''High'',
         ''High'', ''High'', ''High'', ''High''])]"

definition create_default_database :: "dataframe" where
  "create_default_database = DataFrame default_data"

section \<open>PesticideRecommender.get_recommendations\<close>

text \<open>
  The loop over the columns: the last column whose lower-cased name is one of the two
  accepted names wins, for the pest column and for the pesticide column.
\<close>

definition find_columns :: "string list \<Rightarrow> string option \<times> string option" where
  "find_columns cols =
     fold (\<lambda>col (pest_col, pesticide_col).
             (if lower col \<in> set [''pest name'', ''pest_name''] then Some col else pest_col,
              if lower col \<in> set [''most commonly used pesticides'', ''pesticide_name'']
              then Some col else pesticide_col))
          cols (None, None)"

text \<open>
  A recommendation is a Python dict, kept as the list of its (key, value) pairs in
  insertion order. The two optional keys are there when the table has a column of
  exactly that name.
\<close>

type_synonym recommendation = "(string \<times> cell) list"

definition to_rec :: "dataframe \<Rightarrow> string \<Rightarrow> string \<Rightarrow> (string \<Rightarrow> cell) \<Rightarrow> recommendation" where
  "to_rec db pest_col pesticide_col row =
     [(''pest_name'', row pest_col), (''pesticide'', row pesticide_col)]
     @ (if ''application_rate'' \<in> set (columns db)
        then [(''application_rate'', row ''application_rate'')] else [])
     @ (if ''effectiveness'' \<in> set (columns db)
        then [(''effectiveness'', row ''effectiveness'')] else [])"

text \<open>The rows kept by a boolean mask, \<open>df[mask]\<close>.\<close>

definition select_rows :: "bool list \<Rightarrow> 'a list \<Rightarrow> 'a list" where
  "select_rows keep xs = map snd (filter fst (zip keep xs))"

text \<open>
  The fallback loop: the first distinct value of the pest column, in order of first
  appearance, whose lower-cased text contains the query or is contained in it, selects
  the rows equal to it; the loop stops there.
\<close>

definition partial_match :: "string \<Rightarrow> cell \<Rightarrow> bool" where
  "partial_match q pest = (str_in q (lower (py_str pest)) \<or> str_in (lower (py_str pest)) q)"

definition fallback_rows :: "dataframe \<Rightarrow> string \<Rightarrow> string \<Rightarrow> (string \<Rightarrow> cell) list" where
  "fallback_rows db pest_col q =
     (case find (partial_match q) (unique (column db pest_col)) of
        None \<Rightarrow> []
      | Some pest \<Rightarrow> filter (\<lambda>row. cell_eq (row pest_col) pest) (rows db))"

definition get_recommendations :: "dataframe option \<Rightarrow> string \<Rightarrow> py_error + recommendation list" where
  "get_recommendations pesticide_db pest_name =
     (case pesticide_db of
        None \<Rightarrow> Inr []
      | Some db \<Rightarrow>
          let pest_name_clean = strip (lower pest_name) in
          (case find_columns (columns db) of
             (Some pest_col, Some pesticide_col) \<Rightarrow>
               (case str_lower (column db pest_col) of
                  Inl e \<Rightarrow> Inl e
                | Inr lowered \<Rightarrow>
                    (case str_contains pest_name_clean lowered of
                       Inl e \<Rightarrow> Inl e
                     | Inr keep \<Rightarrow>
                         let direct = select_rows keep (rows db);
                             matches = (if direct = [] then fallback_rows db pest_col pest_name_clean
                                        else direct)
                         in Inr (map (to_rec db pest_col pesticide_col) matches)))
           | _ \<Rightarrow> Inr []))"

section \<open>What the application shows\<close>

text \<open>
  The Streamlit calls of \<open>app.py\<close> that matter here, as values: a function of the
  application returns the list of what it displayed, or the exception that ended it.
\<close>

datatype ui =
    Error_initializing py_error
  | System_not_initialized
  | Pest_detected_card string real
  | Prediction_line string real
  | No_pest_detected_card
  | Found_options nat
  | Pesticide_card cell cell cell
  | Safety_notes
  | No_recommendations

text \<open>\<open>d[k]\<close> on a dict raises KeyError when the key is absent.\<close>

definition dict_get :: "(string \<times> 'v) list \<Rightarrow> string \<Rightarrow> py_error + 'v" where
  "dict_get d k = (case map_of d k of None \<Rightarrow> Inl KeyError | Some v \<Rightarrow> Inr v)"

text \<open>
  The loop of \<open>display_pesticide_recommendations\<close> over the recommendations: each card
  reads \<open>rec["effectiveness"]\<close>, \<open>rec['pesticide_name']\<close> and \<open>rec['application_rate']\<close>,
  in this order.
\<close>

fun pesticide_cards :: "recommendation list \<Rightarrow> py_error + ui list" where
  "pesticide_cards [] = Inr []"
| "pesticide_cards (rec # recs) =
     (case dict_get rec ''effectiveness'' of
        Inl e \<Rightarrow> Inl e
      | Inr effectiveness \<Rightarrow>
          (case dict_get rec ''pesticide_name'' of
             Inl e \<Rightarrow> Inl e
           | Inr pesticide_name \<Rightarrow>
               (case dict_get rec ''application_rate'' of
                  Inl e \<Rightarrow> Inl e
                | Inr application_rate \<Rightarrow>
                    (case pesticide_cards recs of
                       Inl e \<Rightarrow> Inl e
                     | Inr cards \<Rightarrow>
                         Inr (Pesticide_card pesticide_name application_rate effectiveness
                              # cards)))))"

definition display_pesticide_recommendations :: "dataframe option \<Rightarrow> string \<Rightarrow> py_error + ui list" where
  "display_pesticide_recommendations pesticide_db pest_name =
     (case get_recommendations pesticide_db pest_name of
        Inl e \<Rightarrow> Inl e
      | Inr recommendations \<Rightarrow>
          if recommendations \<noteq> []
          then (case pesticide_cards recommendations of
                  Inl e \<Rightarrow> Inl e
                | Inr cards \<Rightarrow> Inr (Found_options (length recommendations) # cards @ [Safety_notes]))
          else Inr [No_recommendations])"

section \<open>PestDetector\<close>

text \<open>
  A file is a saved Keras model, the JSON object of the class mapping, an image, a CSV
  table, or something else; loading a file of the wrong kind fails with the loader's
  own error. A model is the function from the preprocessed image to the vector of
  class probabilities.
\<close>

datatype 'img file_content =
    Keras_model "'img \<Rightarrow> real list"
  | Json_object "(string \<times> int) list"
  | Image 'img
  | Csv dataframe
  | Other_file

type_synonym 'img filesystem = "string \<Rightarrow> 'img file_content option"

record 'img pest_detector =
  model :: "'img \<Rightarrow> real list"
  class_mapping :: "(string \<times> int) list"
  idx_to_class :: "int \<Rightarrow> string option"

definition load_model :: "'img file_content \<Rightarrow> py_error + ('img \<Rightarrow> real list)" where
  "load_model f = (case f of Keras_model m \<Rightarrow> Inr m | _ \<Rightarrow> Inl LoadError)"

definition json_load :: "'img file_content \<Rightarrow> py_error + (string \<times> int) list" where
  "json_load f = (case f of Json_object d \<Rightarrow> Inr d | _ \<Rightarrow> Inl LoadError)"

text \<open>\<open>{v: k for k, v in class_mapping.items()}\<close>: a later item replaces an earlier one.\<close>

definition reverse_mapping :: "(string \<times> int) list \<Rightarrow> (int \<Rightarrow> string option)" where
  "reverse_mapping items = fold (\<lambda>(k, v) d. d(v \<mapsto> k)) items Map.empty"

definition PestDetector_init ::
  "'img filesystem \<Rightarrow> string \<Rightarrow> string \<Rightarrow> py_error + 'img pest_detector" where
  "PestDetector_init fs model_path mapping_path =
     (case fs model_path of
        None \<Rightarrow> Inl FileNotFoundError
      | Some model_file \<Rightarrow>
          (case load_model model_file of
             Inl e \<Rightarrow> Inl e
           | Inr m \<Rightarrow>
               (case fs mapping_path of
                  None \<Rightarrow> Inl FileNotFoundError
                | Some mapping_file \<Rightarrow>
                    (case json_load mapping_file of
                       Inl e \<Rightarrow> Inl e
                     | Inr cm \<Rightarrow>
                         Inr \<lparr> model = m, class_mapping = cm,
                               idx_to_class = reverse_mapping cm \<rparr>))))"

text \<open>
  \<open>preprocess_image\<close>: the resizing and scaling of the pixels are part of what the
  model function takes.
\<close>

definition preprocess_image :: "'img filesystem \<Rightarrow> string \<Rightarrow> py_error + 'img" where
  "preprocess_image fs img_path =
     (case fs img_path of
        None \<Rightarrow> Inl FileNotFoundError
      | Some (Image img) \<Rightarrow> Inr img
      | Some _ \<Rightarrow> Inl LoadError)"

text \<open>\<open>np.argmax\<close>: the first index of a largest entry.\<close>

fun argmax :: "real list \<Rightarrow> nat" where
  "argmax [] = 0"
| "argmax [x] = 0"
| "argmax (x # y # ys) =
     (let i = argmax (y # ys) in if (y # ys) ! i \<le> x then 0 else Suc i)"

definition predict_pest :: "'img pest_detector \<Rightarrow> 'img filesystem \<Rightarrow> string \<Rightarrow> py_error + string \<times> real" where
  "predict_pest self fs img_path =
     (case preprocess_image fs img_path of
        Inl e \<Rightarrow> Inl e
      | Inr processed_img \<Rightarrow>
          let predictions = model self processed_img in
          if predictions = [] then Inl ValueError
          else
            let class_idx = argmax predictions;
                confidence = predictions ! class_idx;
                pest_name = (case idx_to_class self (int class_idx) of
                               Some name \<Rightarrow> name | None \<Rightarrow> ''Unknown'')
            in Inr (pest_name, confidence))"

section \<open>DataPreprocessor\<close>

text \<open>
  \<open>pest_classes\<close> is a dict from pest name to index, kept in insertion order. Each
  class directory under \<open>processed_data/images\<close> is the list of the images copied into
  it; the copy number \<open>n\<close> is stored as \<open><class>_<n>.jpg\<close>.
\<close>

record data_preprocessor =
  pest_classes :: "(string \<times> nat) list"
  class_dirs :: "string \<Rightarrow> string list"

definition DataPreprocessor_init :: "data_preprocessor" where
  "DataPreprocessor_init = \<lparr> pest_classes = [], class_dirs = (\<lambda>c. []) \<rparr>"

definition pest_keywords :: "string list" where
  "pest_keywords =
     [''aphid'', ''thrips'', ''whitefly'', ''caterpillar'', ''beetle'',
      ''mite'', ''leafhopper'', ''scale'', ''borer'', ''weevil'',
      ''armyworm'', ''bollworm'', ''cutworm'', ''wireworm'']"

definition basename :: "string \<Rightarrow> string" where
  "basename path = rev (takeWhile (\<lambda>c. c \<noteq> CHR ''/'') (rev path))"

definition extract_pest_class :: "string \<Rightarrow> string option" where
  "extract_pest_class path =
     (let path_lower = lower path in
      case find (\<lambda>keyword. str_in keyword path_lower) pest_keywords of
        Some keyword \<Rightarrow> Some keyword
      | None \<Rightarrow>
          let folder_name = lower (basename path) in
          if folder_name \<noteq> [] \<and> folder_name \<noteq> ''images'' then Some folder_name else None)"

definition copy_image_with_class :: "string \<Rightarrow> string \<Rightarrow> data_preprocessor \<Rightarrow> data_preprocessor" where
  "copy_image_with_class src_path pest_class self =
     (let classes = (if pest_class \<notin> set (map fst (pest_classes self))
                     then pest_classes self @ [(pest_class, length (pest_classes self))]
                     else pest_classes self)
      in \<lparr> pest_classes = classes,
           class_dirs = (class_dirs self)(pest_class := class_dirs self pest_class @ [src_path]) \<rparr>)"

definition endswith :: "string \<Rightarrow> string \<Rightarrow> bool" where
  "endswith s suffix = startswith (rev s) (rev suffix)"

definition is_image_name :: "string \<Rightarrow> bool" where
  "is_image_name fname =
     (endswith (lower fname) ''.png'' \<or> endswith (lower fname) ''.jpg''
      \<or> endswith (lower fname) ''.jpeg'')"

text \<open>
  \<open>process_crop_pest_data\<close> and \<open>process_ag_pest_data\<close> run the same loops over
  \<open>os.walk\<close> of their directory; the walk is the list of (root, files) it yields, empty
  when the directory does not exist.
\<close>

definition process_file :: "string \<Rightarrow> string \<Rightarrow> data_preprocessor \<Rightarrow> data_preprocessor" where
  "process_file dirpath fname self =
     (if is_image_name fname
      then (case extract_pest_class dirpath of
              Some pest_class \<Rightarrow>
                (if pest_class \<noteq> [] then copy_image_with_class (dirpath @ ''/'' @ fname) pest_class self
                 else self)
            | None \<Rightarrow> self)
      else self)"

definition process_pest_data :: "(string \<times> string list) list \<Rightarrow> data_preprocessor \<Rightarrow> data_preprocessor" where
  "process_pest_data walk self =
     fold (\<lambda>(dirpath, files) s. fold (process_file dirpath) files s) walk self"

text \<open>\<open>save_class_mapping\<close> dumps \<open>pest_classes\<close> as it is.\<close>

definition save_class_mapping :: "data_preprocessor \<Rightarrow> (string \<times> nat) list" where
  "save_class_mapping self = pest_classes self"

text \<open>
  \<open>create_train_val_split\<close> splits the images of every class with
  \<open>train_test_split(images, test_size=0.2)\<close>, which raises ValueError when the training
  part would be empty, that is for a class directory with fewer than two images. It
  does not touch \<open>pest_classes\<close>; which images go to which part is not modelled.
\<close>

definition create_train_val_split :: "data_preprocessor \<Rightarrow> py_error + data_preprocessor" where
  "create_train_val_split self =
     (if list_ex (\<lambda>(pest_class, idx). length (class_dirs self pest_class) < 2) (pest_classes self)
      then Inl ValueError else Inr self)"

text \<open>
  \<open>create_unified_dataset\<close>: the two walks, the split, and then the class mapping is
  written; the result is the mapping written, or the exception that ended the run
  before.
\<close>

definition create_unified_dataset ::
  "(string \<times> string list) list \<Rightarrow> (string \<times> string list) list \<Rightarrow> data_preprocessor
     \<Rightarrow> py_error + (string \<times> nat) list" where
  "create_unified_dataset crop_pest_walk ag_pests_walk self =
     (case create_train_val_split
             (process_pest_data ag_pests_walk (process_pest_data crop_pest_walk self)) of
        Inl e \<Rightarrow> Inl e
      | Inr split \<Rightarrow> Inr (save_class_mapping split))"

text \<open>The mapping is dense: names without repetition, numbered 0, 1, 2, ... in order.\<close>

definition dense :: "(string \<times> nat) list \<Rightarrow> bool" where
  "dense classes = (distinct (map fst classes) \<and> map snd classes = [0 ..< length classes])"

section \<open>PestDetectionApp\<close>

record pesticide_recommender =
  pesticide_db :: "dataframe option"

text \<open>
  After building the default table, \<open>create_default_database\<close> writes it to
  \<open>data/default_pesticide_db.csv\<close>: \<open>os.makedirs("data", exist_ok=True)\<close> raises
  FileExistsError when \<open>data\<close> is a file and not a directory.
\<close>

definition write_default_database :: "'img filesystem \<Rightarrow> py_error + dataframe" where
  "write_default_database fs =
     (if fs ''data'' \<noteq> None then Inl FileExistsError else Inr create_default_database)"

text \<open>
  \<open>load_pesticide_database\<close>: \<open>csv_files\<close> are the paths ending in \<open>.csv\<close> found under
  \<open>data/pestopia\<close>, in walk order; the first is read, and the default table is built
  when there is none or when reading it fails.
\<close>

definition load_pesticide_database :: "'img filesystem \<Rightarrow> string list \<Rightarrow> py_error + dataframe" where
  "load_pesticide_database fs csv_files =
     (case csv_files of
        [] \<Rightarrow> write_default_database fs
      | path # _ \<Rightarrow> (case fs path of Some (Csv db) \<Rightarrow> Inr db | _ \<Rightarrow> write_default_database fs))"

definition PesticideRecommender_init ::
  "'img filesystem \<Rightarrow> string list \<Rightarrow> py_error + pesticide_recommender" where
  "PesticideRecommender_init fs csv_files =
     (case load_pesticide_database fs csv_files of
        Inl e \<Rightarrow> Inl e
      | Inr db \<Rightarrow> Inr \<lparr> pesticide_db = Some db \<rparr>)"

record 'img pest_detection_app =
  detector :: "'img pest_detector option"
  recommender :: "pesticide_recommender option"

text \<open>
  \<open>initialize_components\<close>: the two constructors run inside \<open>try\<close>, the detector
  first; an exception is shown with \<open>st.error\<close> and a field that was not yet assigned
  keeps the value it had.
\<close>

definition initialize_components ::
  "'img filesystem \<Rightarrow> string list \<Rightarrow> 'img pest_detection_app
     \<Rightarrow> bool \<times> 'img pest_detection_app \<times> ui list" where
  "initialize_components fs csv_files self =
     (case PestDetector_init fs ''models/pest_detection_model.h5''
             ''processed_data/class_mapping.json'' of
        Inl e \<Rightarrow> (False, self, [Error_initializing e])
      | Inr d \<Rightarrow>
          (case PesticideRecommender_init fs csv_files of
             Inl e \<Rightarrow> (False, self\<lparr> detector := Some d \<rparr>, [Error_initializing e])
           | Inr r \<Rightarrow> (True, self\<lparr> detector := Some d, recommender := Some r \<rparr>, [])))"

definition PestDetectionApp_init ::
  "'img filesystem \<Rightarrow> string list \<Rightarrow> 'img pest_detection_app \<times> ui list" where
  "PestDetectionApp_init fs csv_files =
     snd (initialize_components fs csv_files \<lparr> detector = None, recommender = None \<rparr>)"

text \<open>
  The result \<open>process_image\<close> expects from \<open>self.detector.detect_pest\<close>, a dict with
  these four keys.
\<close>

record detection_result =
  pest_detected :: bool
  primary_pest :: string
  confidence :: real
  all_predictions :: "(string \<times> real) list"

type_synonym 'img detect_pest_method =
  "'img pest_detector \<Rightarrow> 'img \<Rightarrow> real \<Rightarrow> py_error + detection_result"

type_synonym 'img draw_detection_box_method =
  "'img pest_detector \<Rightarrow> 'img \<Rightarrow> detection_result \<Rightarrow> py_error + 'img"

text \<open>
  \<open>app.py\<close> calls two methods on the detector, \<open>detect_pest\<close> and
  \<open>draw_detection_box\<close>. The functions below take what the attribute lookup finds:
  \<open>None\<close> when the class of the detector defines no such method, and the lookup raises
  AttributeError. Class \<open>PestDetector\<close> of \<open>pest_detector.py\<close> defines \<open>__init__\<close>,
  \<open>preprocess_image\<close>, \<open>predict_pest\<close> and \<open>visualize_prediction\<close>, and nothing else.
\<close>

definition PestDetector_detect_pest :: "'img detect_pest_method option" where
  "PestDetector_detect_pest = None"

definition PestDetector_draw_detection_box :: "'img draw_detection_box_method option" where
  "PestDetector_draw_detection_box = None"

definition display_no_pest_detected :: "ui list" where
  "display_no_pest_detected = [No_pest_detected_card]"

definition display_pest_detected ::
  "'img draw_detection_box_method option \<Rightarrow> 'img pest_detection_app \<Rightarrow> detection_result \<Rightarrow> 'img
     \<Rightarrow> py_error + ui list" where
  "display_pest_detected draw_detection_box self detection_result original_image =
     (let shown = Pest_detected_card (primary_pest detection_result) (confidence detection_result)
                  # map (\<lambda>(cls, conf). Prediction_line cls conf)
                        (take 3 (all_predictions detection_result))
      in case (detector self, draw_detection_box) of
           (Some d, Some draw) \<Rightarrow>
             (case draw d original_image detection_result of
                Inl e \<Rightarrow> Inl e
              | Inr detected_image \<Rightarrow>
                  (case recommender self of
                     None \<Rightarrow> Inl AttributeError
                   | Some r \<Rightarrow>
                       (case display_pesticide_recommendations (pesticide_db r)
                               (primary_pest detection_result) of
                          Inl e \<Rightarrow> Inl e
                        | Inr cards \<Rightarrow> Inr (shown @ cards))))
         | _ \<Rightarrow> Inl AttributeError)"

definition process_image ::
  "'img detect_pest_method option \<Rightarrow> 'img draw_detection_box_method option
     \<Rightarrow> 'img pest_detection_app \<Rightarrow> 'img \<Rightarrow> py_error + ui list" where
  "process_image detect_pest draw_detection_box self img =
     (case (detector self, detect_pest) of
        (Some d, Some detect) \<Rightarrow>
          (case detect d img (3 / 10) of
             Inl e \<Rightarrow> Inl e
           | Inr detection_result \<Rightarrow>
               if pest_detected detection_result
               then display_pest_detected draw_detection_box self detection_result img
               else Inr display_no_pest_detected)
      | _ \<Rightarrow> Inl AttributeError)"

text \<open>
  \<open>run\<close>, from the check of the components on: \<open>uploaded\<close> is the uploaded image, if
  any, with whether the button was pressed.
\<close>

definition run :: "'img pest_detection_app \<Rightarrow> ('img \<times> bool) option \<Rightarrow> py_error + ui list" where
  "run self uploaded =
     (if detector self = None \<or> recommender self = None then Inr [System_not_initialized]
      else case uploaded of
             Some (img, True) \<Rightarrow>
               process_image PestDetector_detect_pest PestDetector_draw_detection_box self img
           | _ \<Rightarrow> Inr [])"

section \<open>Strings and patterns\<close>

lemma startswith_iff: "startswith s p \<longleftrightarrow> (\<exists>b. s = p @ b)"
  by (induction s p rule: startswith.induct) auto

lemma str_in_iff: "str_in sub s \<longleftrightarrow> (\<exists>a b. s = a @ sub @ b)"
proof (induction s)
  case Nil
  then show ?case by auto
next
  case (Cons c s)
  show ?case
  proof
    assume "str_in sub (c # s)"
    then consider "startswith (c # s) sub" | "str_in sub s" by auto
    then show "\<exists>a b. c # s = a @ sub @ b"
    proof cases
      case 1
      then obtain b where "c # s = sub @ b" by (auto simp: startswith_iff)
      then have "c # s = [] @ sub @ b" by simp
      then show ?thesis by blast
    next
      case 2
      then obtain a b where "s = a @ sub @ b" using Cons.IH by auto
      then have "c # s = (c # a) @ sub @ b" by simp
      then show ?thesis by blast
    qed
  next
    assume "\<exists>a b. c # s = a @ sub @ b"
    then obtain a b where ab: "c # s = a @ sub @ b" by auto
    show "str_in sub (c # s)"
    proof (cases a)
      case Nil
      then have "startswith (c # s) sub" using ab by (auto simp: startswith_iff)
      then show ?thesis by simp
    next
      case (Cons a0 a')
      then have "s = a' @ sub @ b" using ab by simp
      then have "str_in sub s" using Cons.IH by blast
      then show ?thesis by simp
    qed
  qed
qed

lemma str_in_empty: "str_in [] s"
  by (induction s) auto

lemma re_match_here_plain: "plain pat \<Longrightarrow> re_match_here pat s = startswith s pat"
  by (induction pat s rule: re_match_here.induct) (auto simp: plain_def re_special_def)

lemma re_find_plain: "plain pat \<Longrightarrow> re_find pat s = str_in pat s"
proof (induction s)
  case Nil
  then show ?case by (cases pat) (auto simp: re_match_here_plain)
next
  case (Cons c s)
  then show ?case by (simp add: re_match_here_plain)
qed

lemma plain_in_fragment: "plain pat \<Longrightarrow> in_fragment pat"
  by (induction pat) (auto simp: plain_def in_fragment_def)

section \<open>Columns, masks and unique\<close>

lemma select_rows_map: "select_rows (map p xs) xs = filter p xs"
  by (induction xs) (auto simp: select_rows_def)

lemma find_app:
  "find P (xs @ ys) = (case find P xs of None \<Rightarrow> find P ys | Some x \<Rightarrow> Some x)"
  by (induction xs) auto

lemma unique_fold_find:
  "find P (fold (\<lambda>x seen. if x \<in> set seen then seen else seen @ [x]) xs acc) = find P (acc @ xs)"
proof (induction xs arbitrary: acc)
  case Nil
  then show ?case by simp
next
  case (Cons x xs)
  show ?case
  proof (cases "x \<in> set acc")
    case True
    have "find P (acc @ x # xs) = find P (acc @ xs)"
    proof (cases "find P acc")
      case None
      then have "\<not> P x" using True by (auto simp: find_None_iff)
      then show ?thesis using None by (simp add: find_app)
    next
      case (Some y)
      then show ?thesis by (simp add: find_app)
    qed
    then show ?thesis using True Cons.IH[of acc] by simp
  next
    case False
    then show ?thesis using Cons.IH[of "acc @ [x]"] by simp
  qed
qed

lemma find_unique: "find P (unique xs) = find P xs"
  by (simp add: unique_def unique_fold_find)

lemma find_first_index:
  "i < length xs \<Longrightarrow> P (xs ! i) \<Longrightarrow> (\<forall>j<i. \<not> P (xs ! j)) \<Longrightarrow> find P xs = Some (xs ! i)"
  by (auto simp: find_Some_iff)

lemma object_dtype_lowered:
  "object_dtype (map (\<lambda>c. case c of Str s \<Rightarrow> Str (lower s) | NaN \<Rightarrow> NaN) xs) = object_dtype xs"
  by (induction xs) (auto simp: object_dtype_def is_Str_def split: cell.splits)

section \<open>get_recommendations, step by step\<close>

lemma get_recommendations_steps:
  assumes cols: "find_columns (columns db) = (Some pest_col, Some pesticide_col)"
    and dtype: "object_dtype (column db pest_col)"
    and frag: "in_fragment (strip (lower pest_name))"
  shows "get_recommendations (Some db) pest_name =
    Inr (map (to_rec db pest_col pesticide_col)
      (let direct = filter (\<lambda>row. case row pest_col of
                                     Str s \<Rightarrow> re_find (strip (lower pest_name)) (lower s)
                                   | NaN \<Rightarrow> False) (rows db)
       in if direct = [] then fallback_rows db pest_col (strip (lower pest_name)) else direct))"
proof -
  let ?q = "strip (lower pest_name)"
  let ?low = "map (\<lambda>c. case c of Str s \<Rightarrow> Str (lower s) | NaN \<Rightarrow> NaN) (column db pest_col)"
  let ?hit = "\<lambda>row. case row pest_col of Str s \<Rightarrow> re_find ?q (lower s) | NaN \<Rightarrow> False"
  have low: "str_lower (column db pest_col) = Inr ?low"
    using dtype by (simp add: str_lower_def)
  have keep: "map (\<lambda>c. case c of Str s \<Rightarrow> re_find ?q s | NaN \<Rightarrow> False) ?low = map ?hit (rows db)"
    by (auto simp: column_def split: cell.splits)
  have cont: "str_contains ?q ?low = Inr (map ?hit (rows db))"
    using dtype frag keep by (simp add: str_contains_def object_dtype_lowered)
  show ?thesis
    unfolding get_recommendations_def
    by (simp add: cols low cont select_rows_map Let_def)
qed

lemma fallback_rows_none:
  assumes "\<forall>row\<in>set (rows db). \<forall>s. row pest_col = Str s \<longrightarrow> \<not> partial_match q (Str s)"
  shows "fallback_rows db pest_col q = []"
proof (cases "find (partial_match q) (column db pest_col)")
  case None
  then show ?thesis by (simp add: fallback_rows_def find_unique)
next
  case (Some pest)
  then have mem: "pest \<in> set (column db pest_col)" and pm: "partial_match q pest"
    by (auto simp: find_Some_iff)
  have "pest = NaN"
  proof (cases pest)
    case (Str s)
    then obtain row where "row \<in> set (rows db)" "row pest_col = Str s"
      using mem by (auto simp: column_def)
    then show ?thesis using assms pm Str by blast
  next
    case NaN
    then show ?thesis .
  qed
  then show ?thesis using Some by (simp add: fallback_rows_def find_unique cell_eq_def split: cell.splits)
qed

lemma direct_match_plain:
  assumes cols: "find_columns (columns db) = (Some pest_col, Some pesticide_col)"
    and dtype: "object_dtype (column db pest_col)"
    and pl: "plain (strip (lower pest_name))"
    and some: "\<exists>row\<in>set (rows db). \<exists>s. row pest_col = Str s \<and> str_in (strip (lower pest_name)) (lower s)"
  shows "get_recommendations (Some db) pest_name =
    Inr (map (to_rec db pest_col pesticide_col)
      (filter (\<lambda>row. \<exists>s. row pest_col = Str s \<and> str_in (strip (lower pest_name)) (lower s)) (rows db)))"
proof -
  let ?q = "strip (lower pest_name)"
  have eq: "(\<lambda>row. case row pest_col of Str s \<Rightarrow> re_find ?q (lower s) | NaN \<Rightarrow> False)
          = (\<lambda>row. \<exists>s. row pest_col = Str s \<and> str_in ?q (lower s))"
    using pl by (auto simp: fun_eq_iff re_find_plain split: cell.splits)
  have ne: "filter (\<lambda>row. \<exists>s. row pest_col = Str s \<and> str_in ?q (lower s)) (rows db) \<noteq> []"
    using some by (auto simp: filter_empty_conv)
  show ?thesis
    using get_recommendations_steps[OF cols dtype plain_in_fragment[OF pl]] ne
    by (simp add: eq Let_def)
qed

section \<open>argmax\<close>

lemma argmax_less: "xs \<noteq> [] \<Longrightarrow> argmax xs < length xs"
  by (induction xs rule: argmax.induct) (auto simp: Let_def)

lemma argmax_greatest: "j < length xs \<Longrightarrow> xs ! j \<le> xs ! argmax xs"
proof (induction xs arbitrary: j rule: argmax.induct)
  case 1
  then show ?case by simp
next
  case (2 x)
  then show ?case by simp
next
  case (3 x y ys)
  show ?case
  proof (cases j)
    case 0
    then show ?thesis by (auto simp: Let_def)
  next
    case (Suc k)
    then have "(y # ys) ! k \<le> (y # ys) ! argmax (y # ys)"
      using 3 by simp
    then show ?thesis using Suc by (auto simp: Let_def)
  qed
qed

lemma argmax_first: "j < argmax xs \<Longrightarrow> xs ! j < xs ! argmax xs"
proof (induction xs arbitrary: j rule: argmax.induct)
  case 1
  then show ?case by simp
next
  case (2 x)
  then show ?case by simp
next
  case (3 x y ys)
  let ?i = "argmax (y # ys)"
  from 3(2) have big: "\<not> (y # ys) ! ?i \<le> x" and j: "j < Suc ?i"
    by (auto simp: Let_def split: if_splits)
  show ?case
  proof (cases j)
    case 0
    then show ?thesis using big by (simp add: Let_def)
  next
    case (Suc k)
    then have "k < ?i" using j by simp
    then have "(y # ys) ! k < (y # ys) ! ?i" using 3(1) by simp
    then show ?thesis using Suc big by (simp add: Let_def)
  qed
qed

lemma argmax_Max: "xs \<noteq> [] \<Longrightarrow> xs ! argmax xs = Max (set xs)"
proof -
  assume ne: "xs \<noteq> []"
  have "Max (set xs) = xs ! argmax xs"
  proof (rule Max_eqI)
    show "finite (set xs)" by simp
    show "y \<le> xs ! argmax xs" if "y \<in> set xs" for y
      using that argmax_greatest by (auto simp: in_set_conv_nth)
    show "xs ! argmax xs \<in> set xs" using argmax_less[OF ne] by simp
  qed
  then show ?thesis by simp
qed

section \<open>The reverse mapping\<close>

lemma reverse_fold_absent:
  "v \<notin> snd ` set items \<Longrightarrow> fold (\<lambda>(k, v) d. d(v \<mapsto> k)) items d v = d v"
  by (induction items arbitrary: d) (auto split: prod.splits)

lemma reverse_fold_present:
  "distinct (map snd items) \<Longrightarrow> (k, v) \<in> set items
     \<Longrightarrow> fold (\<lambda>(k, v) d. d(v \<mapsto> k)) items d v = Some k"
proof (induction items arbitrary: d)
  case Nil
  then show ?case by simp
next
  case (Cons a items)
  obtain k' v' where a: "a = (k', v')" by (cases a)
  show ?case
  proof (cases "(k, v) = (k', v')")
    case True
    then have "v \<notin> snd ` set items" using Cons.prems a by auto
    then have rest: "fold (\<lambda>(k, v) d. d(v \<mapsto> k)) items (d(v \<mapsto> k)) v = (d(v \<mapsto> k)) v"
      by (rule reverse_fold_absent)
    have here: "(d(v \<mapsto> k)) v = Some k" by simp
    have unroll: "fold (\<lambda>(k, v) d. d(v \<mapsto> k)) (a # items) d
                    = fold (\<lambda>(k, v) d. d(v \<mapsto> k)) items (d(v \<mapsto> k))"
      using True a by (simp del: fun_upd_apply)
    show ?thesis by (simp only: unroll rest here)
  next
    case False
    then have "(k, v) \<in> set items" using Cons.prems a by auto
    then show ?thesis using Cons a by simp
  qed
qed

lemma reverse_mapping_absent: "v \<notin> snd ` set items \<Longrightarrow> reverse_mapping items v = None"
  by (simp add: reverse_mapping_def reverse_fold_absent)

lemma reverse_mapping_present:
  "distinct (map snd items) \<Longrightarrow> (k, v) \<in> set items \<Longrightarrow> reverse_mapping items v = Some k"
  by (simp add: reverse_mapping_def reverse_fold_present)

lemma PestDetector_init_fields:
  "PestDetector_init fs0 model_path mapping_path = Inr self
     \<Longrightarrow> idx_to_class self = reverse_mapping (class_mapping self)"
  by (auto simp: PestDetector_init_def split: option.splits sum.splits)

lemma predict_pest_steps:
  "fs img_path = Some (Image img) \<Longrightarrow> model self img \<noteq> []
     \<Longrightarrow> predict_pest self fs img_path =
         Inr (case idx_to_class self (int (argmax (model self img))) of
                Some name \<Rightarrow> name | None \<Rightarrow> ''Unknown'',
              model self img ! argmax (model self img))"
  by (simp add: predict_pest_def preprocess_image_def Let_def)

section \<open>The class mapping\<close>

lemma copy_image_with_class_dense:
  assumes "dense (pest_classes self)"
  shows "dense (pest_classes (copy_image_with_class src_path pest_class self))"
  using assms by (auto simp: copy_image_with_class_def dense_def Let_def)

lemma copy_image_with_class_names:
  "fst ` set (pest_classes (copy_image_with_class src_path pest_class self))
     = insert pest_class (fst ` set (pest_classes self))"
  by (auto simp: copy_image_with_class_def Let_def)

lemma process_file_dense: "dense (pest_classes self) \<Longrightarrow> dense (pest_classes (process_file dirpath fname self))"
  by (auto simp: process_file_def copy_image_with_class_dense split: option.splits)

lemma fold_process_file_dense:
  "dense (pest_classes self) \<Longrightarrow> dense (pest_classes (fold (process_file dirpath) files self))"
  by (induction files arbitrary: self) (auto simp: process_file_dense)

lemma process_pest_data_dense:
  "dense (pest_classes self) \<Longrightarrow> dense (pest_classes (process_pest_data walk self))"
  unfolding process_pest_data_def
  by (induction walk arbitrary: self) (auto simp: fold_process_file_dense split: prod.splits)

lemma dense_indices: "dense classes \<Longrightarrow> snd ` set classes = {0 ..< length classes}"
proof -
  assume "dense classes"
  then have "map snd classes = [0 ..< length classes]" by (simp add: dense_def)
  then have "set (map snd classes) = set [0 ..< length classes]" by simp
  then show ?thesis by simp
qed

section \<open>The claims about the recommender\<close>

text \<open>
  Claim C1 (direct matches are the rows whose pest name contains the query as a
  substring, case-insensitively). For a query without special characters this is
  lemma \<open>direct_match_plain\<close>. It fails for a query that holds one: \<open>str.contains\<close>
  reads the query as a regular expression. On the default table the query \<open>aph.d\<close>
  returns the three rows of \<open>aphid\<close>, though no pest name contains \<open>aph.d\<close>.
\<close>

theorem regex_query_matches_more:
  "get_recommendations (Some create_default_database) ''aph.d'' =
     Inr [[(''pest_name'', Str ''aphid''), (''pesticide'', Str ''Imidacloprid''),
           (''application_rate'', Str ''0.5ml/L''), (''effectiveness'', Str ''High'')],
          [(''pest_name'', Str ''aphid''), (''pesticide'', Str ''Thiamethoxam''),
           (''application_rate'', Str ''0.3g/L''), (''effectiveness'', Str ''High'')],
          [(''pest_name'', Str ''aphid''), (''pesticide'', Str ''Acetamiprid''),
           (''application_rate'', Str ''0.6ml/L''), (''effectiveness'', Str ''Medium'')]]
   \<and> \<not> list_ex (\<lambda>row. case row ''pest_name'' of Str s \<Rightarrow> str_in ''aph.d'' (lower s) | NaN \<Rightarrow> False)
          (rows create_default_database)"
  by code_simp

text \<open>
  Claim C2 (an empty or non-matching query returns an empty list and does not raise).
  The empty query is contained in every name: on the default table it returns all 34
  rows.
\<close>

theorem empty_query_returns_all_rows:
  "get_recommendations (Some create_default_database) [] =
     Inr (map (to_rec create_default_database ''pest_name'' ''pesticide_name'')
            (rows create_default_database))
   \<and> length (rows create_default_database) = 34"
  by code_simp

text \<open>
  Claim C2, amended: when the pest column holds text, a query without special
  characters whose cleaned form is contained in no lower-cased pest name, and contains
  none, returns the empty list and raises nothing.
\<close>

theorem no_match_returns_empty:
  assumes cols: "find_columns (columns db) = (Some pest_col, Some pesticide_col)"
    and dtype: "object_dtype (column db pest_col)"
    and pl: "plain (strip (lower pest_name))"
    and nomatch: "\<forall>row\<in>set (rows db). case row pest_col of
                     Str s \<Rightarrow> \<not> str_in (strip (lower pest_name)) (lower s)
                            \<and> \<not> str_in (lower s) (strip (lower pest_name))
                   | NaN \<Rightarrow> True"
  shows "get_recommendations (Some db) pest_name = Inr []"
proof -
  let ?q = "strip (lower pest_name)"
  have direct: "filter (\<lambda>row. case row pest_col of Str s \<Rightarrow> re_find ?q (lower s) | NaN \<Rightarrow> False)
                  (rows db) = []"
    using nomatch pl by (auto simp: filter_empty_conv re_find_plain split: cell.splits)
  have "\<forall>row\<in>set (rows db). \<forall>s. row pest_col = Str s \<longrightarrow> \<not> partial_match ?q (Str s)"
    using nomatch by (auto simp: partial_match_def py_str_def split: cell.splits)
  then have fb: "fallback_rows db pest_col ?q = []"
    by (rule fallback_rows_none)
  show ?thesis
    using get_recommendations_steps[OF cols dtype plain_in_fragment[OF pl]]
    by (simp add: direct fb Let_def)
qed

theorem no_match_returns_empty_witness:
  "get_recommendations (Some create_default_database) ''Locust'' = Inr []"
proof -
  have cols: "find_columns (columns create_default_database) = (Some ''pest_name'', Some ''pesticide_name'')"
    by code_simp
  have dtype: "object_dtype (column create_default_database ''pest_name'')"
    by code_simp
  have pl: "plain (strip (lower ''Locust''))"
    by code_simp
  have nomatch: "\<forall>row\<in>set (rows create_default_database). case row ''pest_name'' of
                     Str s \<Rightarrow> \<not> str_in (strip (lower ''Locust'')) (lower s)
                            \<and> \<not> str_in (lower s) (strip (lower ''Locust''))
                   | NaN \<Rightarrow> True"
    by code_simp
  show ?thesis
    by (rule no_match_returns_empty[OF cols dtype pl nomatch])
qed

text \<open>
  The fallback, once the direct step has kept no row: the pest names are tried in the
  order of the table with the check in both directions; if none passes the result is
  empty, and otherwise the result is every row whose pest name equals the first name
  that passes, in the order of the table.
\<close>

lemma fallback_after_empty_direct:
  assumes cols: "find_columns (columns db) = (Some pest_col, Some pesticide_col)"
    and dtype: "object_dtype (column db pest_col)"
    and frag: "in_fragment (strip (lower pest_name))"
    and nodirect: "\<forall>row\<in>set (rows db). case row pest_col of
                     Str s \<Rightarrow> \<not> re_find (strip (lower pest_name)) (lower s) | NaN \<Rightarrow> True"
  shows "((\<forall>row\<in>set (rows db). \<not> partial_match (strip (lower pest_name)) (row pest_col))
            \<longrightarrow> get_recommendations (Some db) pest_name = Inr [])
       \<and> (\<forall>i<length (rows db).
            partial_match (strip (lower pest_name)) ((rows db ! i) pest_col)
            \<and> (\<forall>j<i. \<not> partial_match (strip (lower pest_name)) ((rows db ! j) pest_col))
            \<longrightarrow> get_recommendations (Some db) pest_name =
                  Inr (map (to_rec db pest_col pesticide_col)
                        (filter (\<lambda>row. cell_eq (row pest_col) ((rows db ! i) pest_col)) (rows db))))"
proof -
  let ?q = "strip (lower pest_name)"
  have direct: "filter (\<lambda>row. case row pest_col of Str s \<Rightarrow> re_find ?q (lower s) | NaN \<Rightarrow> False)
                  (rows db) = []"
    using nodirect by (auto simp: filter_empty_conv split: cell.splits)
  have res: "get_recommendations (Some db) pest_name =
               Inr (map (to_rec db pest_col pesticide_col) (fallback_rows db pest_col ?q))"
    using get_recommendations_steps[OF cols dtype frag] by (simp add: direct Let_def)
  have none: "get_recommendations (Some db) pest_name = Inr []"
    if "\<forall>row\<in>set (rows db). \<not> partial_match ?q (row pest_col)"
  proof -
    have "find (partial_match ?q) (column db pest_col) = None"
      using that by (auto simp: find_None_iff column_def)
    then show ?thesis by (simp add: res fallback_rows_def find_unique)
  qed
  have first: "get_recommendations (Some db) pest_name =
                 Inr (map (to_rec db pest_col pesticide_col)
                       (filter (\<lambda>row. cell_eq (row pest_col) ((rows db ! i) pest_col)) (rows db)))"
    if "i < length (rows db)" "partial_match ?q ((rows db ! i) pest_col)"
       "\<forall>j<i. \<not> partial_match ?q ((rows db ! j) pest_col)" for i
  proof -
    have "find (partial_match ?q) (column db pest_col) = Some (column db pest_col ! i)"
      using that by (intro find_first_index) (auto simp: column_def)
    then show ?thesis using that(1) by (simp add: res fallback_rows_def find_unique column_def)
  qed
  show ?thesis using none first by blast
qed

text \<open>
  For a query without special characters the direct step is the substring test, so
  the fallback is reached exactly when no pest name contains the query. A pest name
  then passes when it is contained in the query (a missing name counts as \<open>nan\<close>, and
  also passes when the query is contained in \<open>nan\<close>), and the rows returned are those
  holding the same text as the first row that passes; a missing name equals no row.
\<close>

lemma fallback_plain:
  assumes cols: "find_columns (columns db) = (Some pest_col, Some pesticide_col)"
    and dtype: "object_dtype (column db pest_col)"
    and pl: "plain (strip (lower pest_name))"
    and nosub: "\<forall>row\<in>set (rows db). \<forall>s. row pest_col = Str s
                  \<longrightarrow> \<not> str_in (strip (lower pest_name)) (lower s)"
    and i: "i < length (rows db)"
    and hit: "str_in (strip (lower pest_name)) (lower (py_str ((rows db ! i) pest_col)))
              \<or> str_in (lower (py_str ((rows db ! i) pest_col))) (strip (lower pest_name))"
    and first: "\<forall>j<i. \<not> str_in (strip (lower pest_name)) (lower (py_str ((rows db ! j) pest_col)))
                     \<and> \<not> str_in (lower (py_str ((rows db ! j) pest_col))) (strip (lower pest_name))"
  shows "get_recommendations (Some db) pest_name =
           Inr (map (to_rec db pest_col pesticide_col)
                 (filter (\<lambda>row. row pest_col \<noteq> NaN \<and> row pest_col = (rows db ! i) pest_col)
                    (rows db)))"
proof -
  let ?q = "strip (lower pest_name)"
  have nodirect: "\<forall>row\<in>set (rows db). case row pest_col of
                     Str s \<Rightarrow> \<not> re_find ?q (lower s) | NaN \<Rightarrow> True"
    using nosub pl by (auto simp: re_find_plain split: cell.splits)
  have eq: "(\<lambda>row. cell_eq (row pest_col) ((rows db ! i) pest_col))
          = (\<lambda>row. row pest_col \<noteq> NaN \<and> row pest_col = (rows db ! i) pest_col)"
    by (auto simp: fun_eq_iff cell_eq_def split: cell.splits)
  have "get_recommendations (Some db) pest_name =
          Inr (map (to_rec db pest_col pesticide_col)
                (filter (\<lambda>row. cell_eq (row pest_col) ((rows db ! i) pest_col)) (rows db)))"
    using fallback_after_empty_direct[OF cols dtype plain_in_fragment[OF pl] nodirect] i hit first
    by (simp add: partial_match_def)
  then show ?thesis by (simp only: eq)
qed

lemma fallback_example:
  "get_recommendations (Some create_default_database) ''Aphids'' =
     Inr (map (to_rec create_default_database ''pest_name'' ''pesticide_name'')
           (take 3 (rows create_default_database)))"
  by code_simp

text \<open>
  Claim C5 (a query with no direct substring match falls back to the check in both
  directions over the distinct pest names and returns the rows of the first name that
  passes). It fails for a query with a special character, from the same reading of the
  query as a regular expression as in C1: on the default table no pest name contains
  \<open>aph.d\<close> and no pest name passes the check in both directions, so the fallback of the
  claim gives the empty list; the code does not reach the fallback and returns the
  three rows of \<open>aphid\<close>.
\<close>

theorem regex_query_skips_fallback:
  "\<not> list_ex (\<lambda>row. case row ''pest_name'' of Str s \<Rightarrow> str_in ''aph.d'' (lower s) | NaN \<Rightarrow> False)
        (rows create_default_database)
   \<and> \<not> list_ex (\<lambda>pest. str_in ''aph.d'' (lower (py_str pest)) \<or> str_in (lower (py_str pest)) ''aph.d'')
          (unique (column create_default_database ''pest_name''))
   \<and> fallback_rows create_default_database ''pest_name'' (strip (lower ''aph.d'')) = []
   \<and> get_recommendations (Some create_default_database) ''aph.d'' =
       Inr (map (to_rec create_default_database ''pest_name'' ''pesticide_name'')
             (take 3 (rows create_default_database)))
   \<and> map (\<lambda>row. row ''pest_name'') (take 3 (rows create_default_database))
       = [Str ''aphid'', Str ''aphid'', Str ''aphid'']"
  by code_simp

text \<open>
  Every recommendation is built by \<open>to_rec\<close>, so it has no key \<open>pesticide_name\<close>, and
  the loop of the application over a non-empty result ends in KeyError.
\<close>

lemma recommendation_keys:
  "dict_get (to_rec db pest_col pesticide_col row) ''pesticide_name'' = Inl KeyError"
  by (simp add: to_rec_def dict_get_def)

lemma display_raises_KeyError:
  assumes "get_recommendations table pest_name = Inr recs" and "recs \<noteq> []"
  shows "display_pesticide_recommendations table pest_name = Inl KeyError"
proof -
  obtain r rs where recs: "recs = r # rs" using assms(2) by (cases recs) auto
  have "\<exists>db pest_col pesticide_col row. r = to_rec db pest_col pesticide_col row"
    using assms(1) recs
    by (auto simp: get_recommendations_def Let_def
             split: option.splits sum.splits prod.splits if_splits)
  then have "dict_get r ''pesticide_name'' = Inl KeyError"
    using recommendation_keys by auto
  then have "pesticide_cards recs = Inl KeyError"
    by (cases "dict_get r ''effectiveness''") (auto simp: recs dict_get_def split: option.splits)
  then show ?thesis using assms by (simp add: display_pesticide_recommendations_def)
qed

text \<open>
  Claim C6 (each recommendation has the fields pest_name, pesticide_name,
  application_rate and effectiveness; all rows of a pest are returned). On the default
  table the query \<open>aphid\<close> returns the three rows of the pest with both optional fields,
  but the pesticide is stored under the key \<open>pesticide\<close>: the application, which reads
  \<open>rec['pesticide_name']\<close>, raises KeyError.
\<close>

theorem recommendation_has_no_pesticide_name:
  "get_recommendations (Some create_default_database) ''aphid'' =
     Inr [[(''pest_name'', Str ''aphid''), (''pesticide'', Str ''Imidacloprid''),
           (''application_rate'', Str ''0.5ml/L''), (''effectiveness'', Str ''High'')],
          [(''pest_name'', Str ''aphid''), (''pesticide'', Str ''Thiamethoxam''),
           (''application_rate'', Str ''0.3g/L''), (''effectiveness'', Str ''High'')],
          [(''pest_name'', Str ''aphid''), (''pesticide'', Str ''Acetamiprid''),
           (''application_rate'', Str ''0.6ml/L''), (''effectiveness'', Str ''Medium'')]]
   \<and> display_pesticide_recommendations (Some create_default_database) ''aphid'' = Inl KeyError"
  by code_simp

section \<open>The claims about the detector\<close>

text \<open>
  Claim C7 (the primary prediction is the class name mapped to the arg-max index, with
  the probability at that index). For a constructed detector whose mapping gives each
  index to one name: the name returned is the one mapped to \<open>argmax\<close>, the confidence
  is the entry there, and \<open>argmax\<close> is the first index of a largest entry.
\<close>

theorem predict_pest_argmax:
  assumes init: "PestDetector_init fs0 model_path mapping_path = Inr self"
    and img: "fs img_path = Some (Image img)"
    and ne: "model self img \<noteq> []"
    and inj: "distinct (map snd (class_mapping self))"
    and name: "(name, int (argmax (model self img))) \<in> set (class_mapping self)"
  shows "predict_pest self fs img_path = Inr (name, model self img ! argmax (model self img))
       \<and> argmax (model self img) < length (model self img)
       \<and> (\<forall>j<length (model self img). model self img ! j \<le> model self img ! argmax (model self img))
       \<and> (\<forall>j<argmax (model self img). model self img ! j < model self img ! argmax (model self img))"
proof -
  have "idx_to_class self (int (argmax (model self img))) = Some name"
    using PestDetector_init_fields[OF init] reverse_mapping_present[OF inj name] by simp
  then have "predict_pest self fs img_path = Inr (name, model self img ! argmax (model self img))"
    using predict_pest_steps[of fs img_path img self] img ne by simp
  then show ?thesis
    using argmax_less[OF ne] argmax_greatest argmax_first by blast
qed

theorem predict_pest_argmax_witness:
  "predict_pest
     \<lparr> model = (\<lambda>i::unit. [1 / 10, 7 / 10, 2 / 10]),
       class_mapping = [(''aphid'', 0), (''thrips'', 1), (''mite'', 2)],
       idx_to_class = reverse_mapping [(''aphid'', 0), (''thrips'', 1), (''mite'', 2)] \<rparr>
     (\<lambda>p. if p = ''leaf.jpg'' then Some (Image ()) else None) ''leaf.jpg''
   = Inr (''thrips'', 7 / 10)"
proof -
  let ?m = "\<lambda>i::unit. [1 / 10, 7 / 10, 2 / 10 :: real]"
  let ?cm = "[(''aphid'', 0::int), (''thrips'', 1), (''mite'', 2)]"
  let ?self = "\<lparr> model = ?m, class_mapping = ?cm, idx_to_class = reverse_mapping ?cm \<rparr>"
  let ?disk = "\<lambda>p. if p = ''m.h5'' then Some (Keras_model ?m)
                  else if p = ''c.json'' then Some (Json_object ?cm) else None"
  let ?pics = "\<lambda>p. if p = ''leaf.jpg'' then Some (Image ()) else None"
  have init: "PestDetector_init ?disk ''m.h5'' ''c.json'' = Inr ?self"
    by (simp add: PestDetector_init_def load_model_def json_load_def)
  have img: "?pics ''leaf.jpg'' = Some (Image ())" by simp
  have ne: "model ?self () \<noteq> []" by simp
  have inj: "distinct (map snd (class_mapping ?self))" by simp
  have am: "argmax (model ?self ()) = 1" by simp
  have name: "(''thrips'', int (argmax (model ?self ()))) \<in> set (class_mapping ?self)"
    unfolding am by simp
  show ?thesis
    using predict_pest_argmax[of ?disk "''m.h5''" "''c.json''" ?self ?pics "''leaf.jpg''" "()" "''thrips''"]
      init img ne inj name am by simp
qed

text \<open>
  Claim C10 (an arg-max index that is no value of the class mapping gives the name
  \<open>Unknown\<close> with the arg-max confidence, and no lookup error).
\<close>

theorem predict_pest_unknown:
  assumes init: "PestDetector_init fs0 model_path mapping_path = Inr self"
    and img: "fs img_path = Some (Image img)"
    and ne: "model self img \<noteq> []"
    and absent: "int (argmax (model self img)) \<notin> snd ` set (class_mapping self)"
  shows "predict_pest self fs img_path = Inr (''Unknown'', model self img ! argmax (model self img))"
proof -
  have "idx_to_class self (int (argmax (model self img))) = None"
    using PestDetector_init_fields[OF init] reverse_mapping_absent[OF absent] by simp
  then show ?thesis using predict_pest_steps[of fs img_path img self] img ne by simp
qed

theorem predict_pest_unknown_witness:
  "predict_pest
     \<lparr> model = (\<lambda>i::unit. [1 / 10, 7 / 10, 2 / 10]),
       class_mapping = [(''aphid'', 0)],
       idx_to_class = reverse_mapping [(''aphid'', 0)] \<rparr>
     (\<lambda>p. if p = ''leaf.jpg'' then Some (Image ()) else None) ''leaf.jpg''
   = Inr (''Unknown'', 7 / 10)"
proof -
  let ?m = "\<lambda>i::unit. [1 / 10, 7 / 10, 2 / 10 :: real]"
  let ?cm = "[(''aphid'', 0::int)]"
  let ?self = "\<lparr> model = ?m, class_mapping = ?cm, idx_to_class = reverse_mapping ?cm \<rparr>"
  let ?disk = "\<lambda>p. if p = ''m.h5'' then Some (Keras_model ?m)
                  else if p = ''c.json'' then Some (Json_object ?cm) else None"
  let ?pics = "\<lambda>p. if p = ''leaf.jpg'' then Some (Image ()) else None"
  have init: "PestDetector_init ?disk ''m.h5'' ''c.json'' = Inr ?self"
    by (simp add: PestDetector_init_def load_model_def json_load_def)
  have img: "?pics ''leaf.jpg'' = Some (Image ())" by simp
  have ne: "model ?self () \<noteq> []" by simp
  have am: "argmax (model ?self ()) = 1" by simp
  have absent: "int (argmax (model ?self ())) \<notin> snd ` set (class_mapping ?self)"
    unfolding am by simp
  show ?thesis
    using predict_pest_unknown[of ?disk "''m.h5''" "''c.json''" ?self ?pics "''leaf.jpg''" "()"]
      init img ne absent am by simp
qed

text \<open>
  Claim C8 (the class mapping is dense). The empty mapping is dense, every call of
  \<open>copy_image_with_class\<close> keeps it dense and adds exactly the class it is given, the
  mapping that \<open>save_class_mapping\<close> dumps after the two walks has the indices 0 to
  k - 1 for its k names, each name and each index once, and a mapping written by
  \<open>create_unified_dataset\<close> is that mapping.
\<close>

theorem class_mapping_dense:
  "dense (pest_classes DataPreprocessor_init)
   \<and> (dense (pest_classes self) \<longrightarrow>
        dense (pest_classes (copy_image_with_class src_path pest_class self))
        \<and> snd ` set (pest_classes (copy_image_with_class src_path pest_class self))
            = {0 ..< length (pest_classes (copy_image_with_class src_path pest_class self))}
        \<and> fst ` set (pest_classes (copy_image_with_class src_path pest_class self))
            = insert pest_class (fst ` set (pest_classes self)))
   \<and> snd ` set (save_class_mapping
                   (process_pest_data ag_pests_walk
                     (process_pest_data crop_pest_walk DataPreprocessor_init)))
        = {0 ..< length (save_class_mapping
                          (process_pest_data ag_pests_walk
                            (process_pest_data crop_pest_walk DataPreprocessor_init)))}
   \<and> distinct (map fst (save_class_mapping
                          (process_pest_data ag_pests_walk
                            (process_pest_data crop_pest_walk DataPreprocessor_init))))
   \<and> distinct (map snd (save_class_mapping
                          (process_pest_data ag_pests_walk
                            (process_pest_data crop_pest_walk DataPreprocessor_init))))
   \<and> (create_unified_dataset crop_pest_walk ag_pests_walk DataPreprocessor_init = Inr written
        \<longrightarrow> written = save_class_mapping
                          (process_pest_data ag_pests_walk
                            (process_pest_data crop_pest_walk DataPreprocessor_init))
            \<and> snd ` set written = {0 ..< length written}
            \<and> distinct (map fst written) \<and> distinct (map snd written))"
proof -
  have init: "dense (pest_classes DataPreprocessor_init)"
    by (simp add: DataPreprocessor_init_def dense_def)
  have step: "dense (pest_classes (copy_image_with_class src_path pest_class self))
        \<and> snd ` set (pest_classes (copy_image_with_class src_path pest_class self))
            = {0 ..< length (pest_classes (copy_image_with_class src_path pest_class self))}
        \<and> fst ` set (pest_classes (copy_image_with_class src_path pest_class self))
            = insert pest_class (fst ` set (pest_classes self))"
    if "dense (pest_classes self)"
    using copy_image_with_class_dense[OF that] dense_indices copy_image_with_class_names by blast
  let ?m = "save_class_mapping
              (process_pest_data ag_pests_walk
                (process_pest_data crop_pest_walk DataPreprocessor_init))"
  have final: "dense ?m"
    unfolding save_class_mapping_def
    by (intro process_pest_data_dense init)
  have d1: "distinct (map fst ?m)" and d2: "distinct (map snd ?m)"
    using final by (simp_all add: dense_def)
  have idx: "snd ` set ?m = {0 ..< length ?m}"
    by (rule dense_indices[OF final])
  have written: "written = ?m"
    if "create_unified_dataset crop_pest_walk ag_pests_walk DataPreprocessor_init = Inr written"
    using that
    by (auto simp: create_unified_dataset_def create_train_val_split_def split: if_splits)
  show ?thesis
    using init step idx d1 d2 written by blast
qed

theorem class_mapping_dense_witness:
  "dense (pest_classes (copy_image_with_class ''data/crop_pest/aphid/1.jpg'' ''aphid''
            DataPreprocessor_init))
   \<and> pest_classes (copy_image_with_class ''data/crop_pest/aphid/1.jpg'' ''aphid''
            DataPreprocessor_init) = [(''aphid'', 0)]
   \<and> create_unified_dataset
        [(''data/crop_pest/Aphids'', [''1.jpg'', ''2.JPG'', ''notes.txt'']),
         (''data/crop_pest/Moth'', [''a.png'', ''b.jpeg''])]
        [(''data/ag_pests/moth'', [''c.jpg''])]
        DataPreprocessor_init
       = Inr [(''aphid'', 0), (''moth'', 1)]
   \<and> snd ` set [(''aphid'', 0::nat), (''moth'', 1)] = {0 ..< length [(''aphid'', 0::nat), (''moth'', 1)]}"
proof -
  have "dense (pest_classes DataPreprocessor_init)"
    using class_mapping_dense by blast
  then have step: "dense (pest_classes (copy_image_with_class ''data/crop_pest/aphid/1.jpg'' ''aphid''
            DataPreprocessor_init))"
    using class_mapping_dense[where self = DataPreprocessor_init and
        src_path = "''data/crop_pest/aphid/1.jpg''" and pest_class = "''aphid''"]
    by blast
  have made: "create_unified_dataset
        [(''data/crop_pest/Aphids'', [''1.jpg'', ''2.JPG'', ''notes.txt'']),
         (''data/crop_pest/Moth'', [''a.png'', ''b.jpeg''])]
        [(''data/ag_pests/moth'', [''c.jpg''])]
        DataPreprocessor_init
       = Inr [(''aphid'', 0), (''moth'', 1)]"
    by code_simp
  have idx: "snd ` set [(''aphid'', 0::nat), (''moth'', 1)]
               = {0 ..< length [(''aphid'', 0::nat), (''moth'', 1)]}"
    using class_mapping_dense[where
        ag_pests_walk = "[(''data/ag_pests/moth'', [''c.jpg''])]" and
        crop_pest_walk = "[(''data/crop_pest/Aphids'', [''1.jpg'', ''2.JPG'', ''notes.txt'']),
                          (''data/crop_pest/Moth'', [''a.png'', ''b.jpeg''])]" and
        written = "[(''aphid'', 0), (''moth'', 1)]"] made
    by blast
  show ?thesis
    using step made idx by (simp add: copy_image_with_class_def DataPreprocessor_init_def)
qed

text \<open>
  Claim C9 (construction raises the not-found error exactly when the model file or the
  mapping file is missing). The model is loaded before the mapping file is looked at:
  with a model file that exists and does not load, and no mapping file, the error
  raised is the loader's.
\<close>

theorem unloadable_model_hides_missing_mapping:
  "PestDetector_init
     (\<lambda>p. if p = ''models/pest_detection_model.h5'' then Some (Other_file :: unit file_content)
           else None)
     ''models/pest_detection_model.h5'' ''processed_data/class_mapping.json'' = Inl LoadError"
  by (simp add: PestDetector_init_def load_model_def)

text \<open>
  Claim C9, amended: construction raises the not-found error exactly when the model
  file is missing, or the model file loads and the mapping file is missing. Whatever
  error construction raises, \<open>initialize_components\<close> shows it and returns False, the
  detector of the application stays unset, and \<open>run\<close> reports that the system is not
  initialized.
\<close>

theorem PestDetector_init_not_found:
  "(PestDetector_init fs model_path mapping_path = Inl FileNotFoundError
      \<longleftrightarrow> fs model_path = None
          \<or> ((\<exists>m. fs model_path = Some (Keras_model m)) \<and> fs mapping_path = None))
   \<and> (PestDetector_init fs ''models/pest_detection_model.h5''
          ''processed_data/class_mapping.json'' = Inl e
        \<longrightarrow> initialize_components fs csv_files \<lparr> detector = None, recommender = None \<rparr>
              = (False, \<lparr> detector = None, recommender = None \<rparr>, [Error_initializing e])
          \<and> detector (fst (PestDetectionApp_init fs csv_files)) = None
          \<and> run (fst (PestDetectionApp_init fs csv_files)) uploaded = Inr [System_not_initialized])"
  by (auto simp: PestDetector_init_def load_model_def json_load_def initialize_components_def
        PestDetectionApp_init_def run_def
      split: option.splits sum.splits file_content.splits)

theorem PestDetector_init_not_found_witness:
  "initialize_components (\<lambda>p. None :: unit file_content option) []
      \<lparr> detector = None, recommender = None \<rparr>
     = (False, \<lparr> detector = None, recommender = None \<rparr>, [Error_initializing FileNotFoundError])"
proof -
  have "PestDetector_init (\<lambda>p. None :: unit file_content option)
          ''models/pest_detection_model.h5'' ''processed_data/class_mapping.json''
        = Inl FileNotFoundError"
    using PestDetector_init_not_found[of "\<lambda>p. None :: unit file_content option"
        "''models/pest_detection_model.h5''" "''processed_data/class_mapping.json''"]
    by simp
  then show ?thesis
    using PestDetector_init_not_found[of "\<lambda>p. None :: unit file_content option" _ _ FileNotFoundError "[]"]
    by blast
qed

section \<open>The claims about the application\<close>

text \<open>
  Claim C3 (detection gives the primary pest, its confidence and a ranked top-3 list
  whose best entry is the primary pest). \<open>process_image\<close> asks the detector for
  \<open>detect_pest\<close>, which class \<open>PestDetector\<close> does not define: for every application
  state and image it ends in AttributeError, and no such result is produced;
  \<open>predict_pest\<close> returns the primary pest and its confidence only.
\<close>

theorem process_image_no_detect_pest:
  "process_image PestDetector_detect_pest PestDetector_draw_detection_box self img = Inl AttributeError"
  by (simp add: process_image_def PestDetector_detect_pest_def split: option.splits)

text \<open>
  \<open>predict_pest\<close> has no threshold: for an image that exists and a non-empty vector
  of probabilities it returns the name of the arg-max index, or \<open>Unknown\<close>, with the
  largest probability, however small that is.
\<close>

lemma predict_pest_no_threshold:
  assumes "fs img_path = Some (Image img)" and "model d img \<noteq> []"
  shows "predict_pest d fs img_path =
           Inr (case idx_to_class d (int (argmax (model d img))) of
                  Some name \<Rightarrow> name | None \<Rightarrow> ''Unknown'',
                Max (set (model d img)))"
  using predict_pest_steps[of fs img_path img d] assms by (simp add: argmax_Max)


text \<open>
  An application built from a disk with a model and a class mapping, and an image on
  which \<open>predict_pest\<close> reports \<open>aphid\<close> at confidence 0.9: pressing the button ends in
  AttributeError.
\<close>

lemma detect_button_example:
  "fst (PestDetectionApp_init
          (\<lambda>p. if p = ''models/pest_detection_model.h5''
                then Some (Keras_model (\<lambda>i::unit. [9 / 10, 1 / 10]))
                else if p = ''processed_data/class_mapping.json''
                then Some (Json_object [(''aphid'', 0), (''mite'', 1)])
                else if p = ''leaf.jpg'' then Some (Image ()) else None) [])
     = \<lparr> detector = Some \<lparr> model = (\<lambda>i::unit. [9 / 10, 1 / 10]),
                            class_mapping = [(''aphid'', 0), (''mite'', 1)],
                            idx_to_class = reverse_mapping [(''aphid'', 0), (''mite'', 1)] \<rparr>,
         recommender = Some \<lparr> pesticide_db = Some create_default_database \<rparr> \<rparr>
   \<and> predict_pest
         \<lparr> model = (\<lambda>i::unit. [9 / 10, 1 / 10]),
           class_mapping = [(''aphid'', 0), (''mite'', 1)],
           idx_to_class = reverse_mapping [(''aphid'', 0), (''mite'', 1)] \<rparr>
         (\<lambda>p. if p = ''leaf.jpg'' then Some (Image ()) else None) ''leaf.jpg''
       = Inr (''aphid'', 9 / 10)
   \<and> run \<lparr> detector = Some \<lparr> model = (\<lambda>i::unit. [9 / 10, 1 / 10]),
                                class_mapping = [(''aphid'', 0), (''mite'', 1)],
                                idx_to_class = reverse_mapping [(''aphid'', 0), (''mite'', 1)] \<rparr>,
             recommender = Some \<lparr> pesticide_db = Some create_default_database \<rparr> \<rparr>
         (Some ((), True))
       = Inl AttributeError"
  by (simp add: PestDetectionApp_init_def initialize_components_def PestDetector_init_def
        load_model_def json_load_def PesticideRecommender_init_def load_pesticide_database_def
        write_default_database_def predict_pest_def preprocess_image_def reverse_mapping_def
        run_def process_image_def PestDetector_detect_pest_def)

end
